theory Spec2Isabelle
  imports Main "HOL-Library.Sublist" "HOL-Library.AList"
begin

section \<open>Go string helpers used by the apply engine\<close>

text \<open>
  Go strings are byte sequences; they are modelled as \<open>string\<close> (a list of 8-bit
  characters).  The helpers below are the functions of Go's \<open>strings\<close> package that
  \<open>octarine.go\<close> calls.  \<open>TrimSpace\<close> and \<open>ToLower\<close> are given for ASCII:
  \<open>TrimSpace\<close> removes the six ASCII white-space characters from both ends, and
  \<open>ToLower\<close> maps the letters A to Z.  Go does the same on every string whose
  leading and trailing white space is ASCII and whose letters are ASCII; it also trims
  the Unicode spaces and lower-cases the letters beyond ASCII, which the model leaves
  alone.
\<close>

definition isSpace :: "char \<Rightarrow> bool" where
  "isSpace c \<longleftrightarrow> c = CHR 0x09 \<or> c = CHR 0x0A \<or> c = CHR 0x0B \<or> c = CHR 0x0C
     \<or> c = CHR 0x0D \<or> c = CHR 0x20"

definition TrimSpace :: "string \<Rightarrow> string" where
  "TrimSpace s = rev (dropWhile isSpace (rev (dropWhile isSpace s)))"

definition lowerChar :: "char \<Rightarrow> char" where
  "lowerChar c =
     (case map_of (zip ''ABCDEFGHIJKLMNOPQRSTUVWXYZ'' ''abcdefghijklmnopqrstuvwxyz'') c of
        Some l \<Rightarrow> l
      | None \<Rightarrow> c)"

definition ToLower :: "string \<Rightarrow> string" where
  "ToLower s = map lowerChar s"

definition HasSuffix :: "string \<Rightarrow> string \<Rightarrow> bool" where
  "HasSuffix s suf \<longleftrightarrow> length suf \<le> length s \<and> drop (length s - length suf) s = suf"

text \<open>
  \<open>strings.Index s sep\<close>: the position of the first occurrence of \<open>sep\<close> in
  \<open>s\<close>; Go's -1 is \<open>None\<close>.
\<close>

fun Index :: "string \<Rightarrow> string \<Rightarrow> nat option" where
  "Index [] sep = (if sep = [] then Some 0 else None)"
| "Index (c # cs) sep =
     (if prefix sep (c # cs) then Some 0 else map_option Suc (Index cs sep))"

text \<open>
  \<open>strings.Split s sep\<close> (Go's \<open>genSplit\<close> with no limit): cut at the first
  occurrence of the separator, drop the separator, and go on with the rest.  With an
  empty separator Go cuts after every character.
\<close>

function Split :: "string \<Rightarrow> string \<Rightarrow> string list" where
  "Split s sep =
     (if sep = [] then map (\<lambda>c. [c]) s
      else case Index s sep of
             None \<Rightarrow> [s]
           | Some m \<Rightarrow> take m s # Split (drop (m + length sep) s) sep)"
  by pat_completeness auto
termination
proof (relation "measure (\<lambda>(s, sep). length s)")
  show "wf (measure (\<lambda>(s, sep). length s))" by simp
next
  fix s sep :: string and m :: nat
  assume sep: "sep \<noteq> []" and idx: "Index s sep = Some m"
  have bound: "Index t sep = Some k \<Longrightarrow> k + length sep \<le> length t" for t k
  proof (induction t arbitrary: k)
    case Nil
    then show ?case by (simp split: if_splits)
  next
    case (Cons c cs)
    show ?case
    proof (cases "prefix sep (c # cs)")
      case True
      with Cons.prems show ?thesis by (auto dest: prefix_length_le)
    next
      case False
      with Cons.prems obtain j where "Index cs sep = Some j" "k = Suc j" by auto
      with Cons.IH show ?thesis by fastforce
    qed
  qed
  from bound [OF idx] sep have "length s - (m + length sep) < length s"
    by (cases sep) auto
  then show "((drop (m + length sep) s, sep), (s, sep)) \<in> measure (\<lambda>(s, sep). length s)"
    by simp
qed



section \<open>Documents and resource coordinates\<close>

text \<open>
  The content of an \<open>unstructured.Unstructured\<close> is a \<open>map[string]interface{}\<close>
  holding decoded JSON.  The dynamic values are a datatype; a Go map is an association
  list read with \<open>map_of\<close> and written with \<open>AList.update\<close>.
\<close>

datatype val =
    VNull
  | VBool bool
  | VInt int
  | VString string
  | VArray "val list"
  | VMap "(string \<times> val) list"

record Unstructured =
  Object :: "(string \<times> val) list"

text \<open>
  The accessors of \<open>Unstructured\<close> (package \<open>k8s.io/apimachinery\<close>): a getter
  walks the nested maps and yields the empty string unless it ends at a string.
\<close>

fun NestedFieldNoCopy :: "(string \<times> val) list \<Rightarrow> string list \<Rightarrow> val option" where
  "NestedFieldNoCopy obj [] = Some (VMap obj)"
| "NestedFieldNoCopy obj [f] = map_of obj f"
| "NestedFieldNoCopy obj (f # g # fs) =
     (case map_of obj f of
        Some (VMap m) \<Rightarrow> NestedFieldNoCopy m (g # fs)
      | _ \<Rightarrow> None)"

definition getNestedString :: "(string \<times> val) list \<Rightarrow> string list \<Rightarrow> string" where
  "getNestedString obj path =
     (case NestedFieldNoCopy obj path of Some (VString s) \<Rightarrow> s | _ \<Rightarrow> [])"

definition GetAPIVersion :: "Unstructured \<Rightarrow> string" where
  "GetAPIVersion u = getNestedString (Object u) [''apiVersion'']"

definition GetKind :: "Unstructured \<Rightarrow> string" where
  "GetKind u = getNestedString (Object u) [''kind'']"

definition GetName :: "Unstructured \<Rightarrow> string" where
  "GetName u = getNestedString (Object u) [''metadata'', ''name'']"

definition GetNamespace :: "Unstructured \<Rightarrow> string" where
  "GetNamespace u = getNestedString (Object u) [''metadata'', ''namespace'']"

text \<open>
  \<open>SetNamespace\<close> writes \<open>metadata.namespace\<close>, creating \<open>metadata\<close> when it is
  absent, and removes the field when the namespace is empty; when \<open>metadata\<close> is not
  a map the library's error is dropped and the object stays as it is.
\<close>

definition SetNamespace :: "Unstructured \<Rightarrow> string \<Rightarrow> Unstructured" where
  "SetNamespace u ns =
     (case map_of (Object u) ''metadata'' of
        None \<Rightarrow>
          if ns = [] then u
          else u\<lparr>Object := AList.update ''metadata'' (VMap [(''namespace'', VString ns)]) (Object u)\<rparr>
      | Some (VMap m) \<Rightarrow>
          u\<lparr>Object := AList.update ''metadata''
                (VMap (if ns = [] then AList.delete ''namespace'' m
                       else AList.update ''namespace'' (VString ns) m)) (Object u)\<rparr>
      | Some _ \<Rightarrow> u)"

definition IsList :: "Unstructured \<Rightarrow> bool" where
  "IsList u = (case map_of (Object u) ''items'' of Some (VArray _) \<Rightarrow> True | _ \<Rightarrow> False)"

record GroupVersionResource =
  Group :: string
  Version :: string
  Resource :: string

text \<open>
  Lines 191 to 215 of \<open>executeManifest\<close>: the group and version from the
  \<open>apiVersion\<close>, the resource from the kind.
\<close>

definition groupVersionOf :: "string \<Rightarrow> string \<times> string" where
  "groupVersionOf apiVersion =
     (let groupVersion = Split apiVersion ''/''
      in if length groupVersion = 2 then (groupVersion ! 0, groupVersion ! 1)
         else if length groupVersion = 1 then ([], groupVersion ! 0)
         else ([], []))"

definition pluralOf :: "string \<Rightarrow> string" where
  "pluralOf k =
     (let kind = ToLower k
      in if kind = ''logentry'' then ''logentries''
         else if kind = ''kubernetes'' then ''kuberneteses''
         else kind @ ''s'')"

definition computedResource :: "Unstructured \<Rightarrow> GroupVersionResource" where
  "computedResource data =
     \<lparr>Group = fst (groupVersionOf (GetAPIVersion data)),
      Version = snd (groupVersionOf (GetAPIVersion data)),
      Resource = pluralOf (GetKind data)\<rparr>"

section \<open>The resource store and its calls\<close>

text \<open>
  The dynamic client is an interface of the Kubernetes client library; what the store
  answers is not decided by this program.  A client is therefore four answer functions
  over a store state of any type \<open>'s\<close>.  The scope of a call is \<open>Some ns\<close> where
  the code writes \<open>.Namespace(ns)\<close> and \<open>None\<close> where it does not.  A failed call
  answers \<open>Inl\<close> with the error's message.
\<close>

datatype DeletionPropagation = DeletePropagationBackground

record DeleteOptions =
  PropagationPolicy :: "DeletionPropagation option"

record 's dynamic_client =
  Create :: "GroupVersionResource \<Rightarrow> string option \<Rightarrow> Unstructured \<Rightarrow> 's
               \<Rightarrow> (string + Unstructured) \<times> 's"
  Get :: "GroupVersionResource \<Rightarrow> string option \<Rightarrow> string \<Rightarrow> 's
               \<Rightarrow> (string + Unstructured) \<times> 's"
  Update :: "GroupVersionResource \<Rightarrow> string option \<Rightarrow> Unstructured \<Rightarrow> 's
               \<Rightarrow> (string + Unstructured) \<times> 's"
  Delete :: "GroupVersionResource \<Rightarrow> string option \<Rightarrow> string \<Rightarrow> DeleteOptions \<Rightarrow> 's
               \<Rightarrow> string option \<times> 's"

text \<open>Every call made to the store is recorded, with its answer, in the order made.\<close>

datatype call =
    CreateCall GroupVersionResource "string option" Unstructured "string + Unstructured"
  | GetCall GroupVersionResource "string option" string "string + Unstructured"
  | UpdateCall GroupVersionResource "string option" Unstructured "string + Unstructured"
  | DeleteCall GroupVersionResource "string option" string DeleteOptions "string option"

record 's world =
  store :: 's
  calls :: "call list"

definition callCreate ::
  "'s dynamic_client \<Rightarrow> GroupVersionResource \<Rightarrow> string option \<Rightarrow> Unstructured \<Rightarrow> 's world
     \<Rightarrow> (string + Unstructured) \<times> 's world" where
  "callCreate c res ns data w =
     (case Create c res ns data (store w) of
        (r, s') \<Rightarrow> (r, \<lparr>store = s', calls = calls w @ [CreateCall res ns data r]\<rparr>))"

definition callGet ::
  "'s dynamic_client \<Rightarrow> GroupVersionResource \<Rightarrow> string option \<Rightarrow> string \<Rightarrow> 's world
     \<Rightarrow> (string + Unstructured) \<times> 's world" where
  "callGet c res ns name w =
     (case Get c res ns name (store w) of
        (r, s') \<Rightarrow> (r, \<lparr>store = s', calls = calls w @ [GetCall res ns name r]\<rparr>))"

definition callUpdate ::
  "'s dynamic_client \<Rightarrow> GroupVersionResource \<Rightarrow> string option \<Rightarrow> Unstructured \<Rightarrow> 's world
     \<Rightarrow> (string + Unstructured) \<times> 's world" where
  "callUpdate c res ns data w =
     (case Update c res ns data (store w) of
        (r, s') \<Rightarrow> (r, \<lparr>store = s', calls = calls w @ [UpdateCall res ns data r]\<rparr>))"

definition callDelete ::
  "'s dynamic_client \<Rightarrow> GroupVersionResource \<Rightarrow> string option \<Rightarrow> string \<Rightarrow> DeleteOptions
     \<Rightarrow> 's world \<Rightarrow> string option \<times> 's world" where
  "callDelete c res ns name opts w =
     (case Delete c res ns name opts (store w) of
        (r, s') \<Rightarrow> (r, \<lparr>store = s', calls = calls w @ [DeleteCall res ns name opts r]\<rparr>))"

text \<open>The verb of a recorded call, as a number that grows along create, get, update,
  delete; a list of calls is in that order when the numbers of its calls are sorted.\<close>

fun phase :: "call \<Rightarrow> nat" where
  "phase (CreateCall _ _ _ _) = 0"
| "phase (GetCall _ _ _ _) = 1"
| "phase (UpdateCall _ _ _ _) = 2"
| "phase (DeleteCall _ _ _ _ _) = 3"

text \<open>The coordinate that a recorded call was made under.\<close>

fun resourceOf :: "call \<Rightarrow> GroupVersionResource" where
  "resourceOf (CreateCall res _ _ _) = res"
| "resourceOf (GetCall res _ _ _) = res"
| "resourceOf (UpdateCall res _ _ _) = res"
| "resourceOf (DeleteCall res _ _ _ _) = res"

section \<open>The apply engine\<close>

text \<open>
  A Go \<open>error\<close> is observed only through its message, so it is its message;
  \<open>errors.Wrapf err msg\<close> puts the new message and a colon before the old one.  A
  run-time panic is a failure of its own kind.  Every function returns its result and
  the world it leaves.  Log output is not part of the model.
\<close>

datatype panic = NilPointerDereference | InterfaceConversion

datatype failure = Error string | Panic panic

definition Wrapf :: "string \<Rightarrow> string \<Rightarrow> string" where
  "Wrapf err msg = msg @ '': '' @ err"

record 's OctarineClient =
  k8sDynamicClient :: "'s dynamic_client option"

definition createResource ::
  "'s OctarineClient \<Rightarrow> GroupVersionResource \<Rightarrow> Unstructured \<Rightarrow> 's world
     \<Rightarrow> (failure + unit) \<times> 's world" where
  "createResource oClient res data w =
     (case k8sDynamicClient oClient of
        None \<Rightarrow> (Inl (Panic NilPointerDereference), w)
      | Some c \<Rightarrow>
          (case callCreate c res (Some (GetNamespace data)) data w of
             (Inr _, w1) \<Rightarrow> (Inr (), w1)
           | (Inl _, w1) \<Rightarrow>
               (case callCreate c res None data w1 of
                  (Inr _, w2) \<Rightarrow> (Inr (), w2)
                | (Inl err, w2) \<Rightarrow>
                    (Inl (Error (Wrapf err
                       ''unable to create the requested resource, attempting to update'')), w2))))"

definition getResource ::
  "'s OctarineClient \<Rightarrow> GroupVersionResource \<Rightarrow> Unstructured \<Rightarrow> 's world
     \<Rightarrow> (failure + Unstructured) \<times> 's world" where
  "getResource oClient res data w =
     (case k8sDynamicClient oClient of
        None \<Rightarrow> (Inl (Panic NilPointerDereference), w)
      | Some c \<Rightarrow>
          (case callGet c res (Some (GetNamespace data)) (GetName data) w of
             (Inr data1, w1) \<Rightarrow> (Inr data1, w1)
           | (Inl _, w1) \<Rightarrow>
               (case callGet c res None (GetName data) w1 of
                  (Inr data1, w2) \<Rightarrow> (Inr data1, w2)
                | (Inl err, w2) \<Rightarrow>
                    (Inl (Error (Wrapf err
                       ''unable to retrieve the resource with a matching name, while attempting to apply the config'')), w2))))"

definition updateResource ::
  "'s OctarineClient \<Rightarrow> GroupVersionResource \<Rightarrow> Unstructured \<Rightarrow> 's world
     \<Rightarrow> (failure + unit) \<times> 's world" where
  "updateResource oClient res data w =
     (case k8sDynamicClient oClient of
        None \<Rightarrow> (Inl (Panic NilPointerDereference), w)
      | Some c \<Rightarrow>
          (case callUpdate c res (Some (GetNamespace data)) data w of
             (Inr _, w1) \<Rightarrow> (Inr (), w1)
           | (Inl _, w1) \<Rightarrow>
               (case callUpdate c res None data w1 of
                  (Inr _, w2) \<Rightarrow> (Inr (), w2)
                | (Inl err, w2) \<Rightarrow>
                    (Inl (Error (Wrapf err
                       ''unable to update resource with the given name, while attempting to apply the config'')), w2))))"

text \<open>
  Lines 90 to 93 of \<open>deleteResource\<close>: the \<open>spec\<close> entry is asserted to be a map
  and its \<open>replicas\<close> entry is set to 0.  The assertion panics when the entry is
  absent or is anything but a map.
\<close>

definition zeroReplicas :: "Unstructured \<Rightarrow> panic + Unstructured" where
  "zeroReplicas data1 =
     (case map_of (Object data1) ''spec'' of
        Some (VMap spec1) \<Rightarrow>
          Inr (data1\<lparr>Object :=
                 AList.update ''spec'' (VMap (AList.update ''replicas'' (VInt 0) spec1))
                   (Object data1)\<rparr>)
      | _ \<Rightarrow> Inl InterfaceConversion)"

text \<open>
  Lines 98 to 111 of \<open>deleteResource\<close>: the delete with background propagation in
  the document's namespace, and on failure the delete with no namespace and empty
  options.
\<close>

definition deleteCalls ::
  "'s dynamic_client \<Rightarrow> GroupVersionResource \<Rightarrow> Unstructured \<Rightarrow> 's world
     \<Rightarrow> (failure + unit) \<times> 's world" where
  "deleteCalls c res data w =
     (case callDelete c res (Some (GetNamespace data)) (GetName data)
             \<lparr>PropagationPolicy = Some DeletePropagationBackground\<rparr> w of
        (None, w1) \<Rightarrow> (Inr (), w1)
      | (Some _, w1) \<Rightarrow>
          (case callDelete c res None (GetName data) \<lparr>PropagationPolicy = None\<rparr> w1 of
             (None, w2) \<Rightarrow> (Inr (), w2)
           | (Some err, w2) \<Rightarrow>
               (Inl (Error (Wrapf err ''unable to delete the requested resource'')), w2)))"

definition deleteResource ::
  "'s OctarineClient \<Rightarrow> GroupVersionResource \<Rightarrow> Unstructured \<Rightarrow> 's world
     \<Rightarrow> (failure + unit) \<times> 's world" where
  "deleteResource oClient res data w =
     (case k8sDynamicClient oClient of
        None \<Rightarrow> (Inl (Error ''mesh client has not been created''), w)
      | Some c \<Rightarrow>
          if Resource res = ''namespaces'' \<and> GetName data = ''default'' then (Inr (), w)
          else if Resource res = ''deployments'' then
            (case getResource oClient res data w of
               (Inl f, w1) \<Rightarrow> (Inl f, w1)
             | (Inr data1, w1) \<Rightarrow>
                 (case zeroReplicas data1 of
                    Inl p \<Rightarrow> (Inl (Panic p), w1)
                  | Inr data1' \<Rightarrow>
                      (case updateResource oClient res data1' w1 of
                         (Inl f, w2) \<Rightarrow> (Inl f, w2)
                       | (Inr _, w2) \<Rightarrow> deleteCalls c res data w2)))
          else deleteCalls c res data w)"

text \<open>Lines 188 to 190 of \<open>executeManifest\<close>: the caller's namespace, when given, is
  written into the document.\<close>

definition withNamespace :: "Unstructured \<Rightarrow> string \<Rightarrow> Unstructured" where
  "withNamespace data namespace = (if namespace \<noteq> [] then SetNamespace data namespace else data)"

definition executeManifest ::
  "'s OctarineClient \<Rightarrow> Unstructured \<Rightarrow> string \<Rightarrow> bool \<Rightarrow> 's world
     \<Rightarrow> (failure + unit) \<times> 's world" where
  "executeManifest oClient data0 namespace delete w =
     (let data = withNamespace data0 namespace;
          res = computedResource data
      in if delete then deleteResource oClient res data w
         else
           (case createResource oClient res data w of
              (Inr _, w1) \<Rightarrow> (Inr (), w1)
            | (Inl (Panic p), w1) \<Rightarrow> (Inl (Panic p), w1)
            | (Inl (Error _), w1) \<Rightarrow>
                (case getResource oClient res data w1 of
                   (Inl f, w2) \<Rightarrow> (Inl f, w2)
                 | (Inr data1, w2) \<Rightarrow> updateResource oClient res data1 w2)))"

text \<open>
  \<open>yaml.YAMLToJSON\<close> and \<open>UnmarshalJSON\<close> are library parsers; the payload
  functions take them as a parameter.  \<open>Inl\<close> carries the parser's error message.
\<close>

record codec =
  YAMLToJSON :: "string \<Rightarrow> string + string"
  UnmarshalJSON :: "string \<Rightarrow> string + Unstructured"

fun typeName :: "val \<Rightarrow> string" where
  "typeName VNull = ''<nil>''"
| "typeName (VBool _) = ''bool''"
| "typeName (VInt _) = ''int64''"
| "typeName (VString _) = ''string''"
| "typeName (VArray _) = ''[]interface {}''"
| "typeName (VMap _) = ''map[string]interface {}''"

fun eachItem ::
  "(Unstructured \<Rightarrow> 'w \<Rightarrow> (failure + unit) \<times> 'w) \<Rightarrow> val list \<Rightarrow> 'w \<Rightarrow> (failure + unit) \<times> 'w" where
  "eachItem fn [] w = (Inr (), w)"
| "eachItem fn (item # items) w =
     (case item of
        VMap child \<Rightarrow>
          (case fn \<lparr>Object = child\<rparr> w of
             (Inr _, w1) \<Rightarrow> eachItem fn items w1
           | (Inl f, w1) \<Rightarrow> (Inl f, w1))
      | _ \<Rightarrow> (Inl (Error ''items member is not an object: map[string]interface {}''), w))"

definition EachListItem ::
  "Unstructured \<Rightarrow> (Unstructured \<Rightarrow> 'w \<Rightarrow> (failure + unit) \<times> 'w) \<Rightarrow> 'w \<Rightarrow> (failure + unit) \<times> 'w" where
  "EachListItem u fn w =
     (case map_of (Object u) ''items'' of
        None \<Rightarrow> (Inl (Error ''content is not a list''), w)
      | Some (VArray items) \<Rightarrow> eachItem fn items w
      | Some v \<Rightarrow> (Inl (Error (''content is not a list: '' @ typeName v)), w))"

definition applyManifestPayload ::
  "codec \<Rightarrow> 's OctarineClient \<Rightarrow> string \<Rightarrow> string \<Rightarrow> bool \<Rightarrow> 's world
     \<Rightarrow> (failure + unit) \<times> 's world" where
  "applyManifestPayload cd oClient namespace newBytes delete w =
     (case k8sDynamicClient oClient of
        None \<Rightarrow> (Inl (Error ''mesh client has not been created''), w)
      | Some _ \<Rightarrow>
          (case YAMLToJSON cd newBytes of
             Inl err \<Rightarrow> (Inl (Error (Wrapf err ''unable to convert yaml to json'')), w)
           | Inr jsonBytes \<Rightarrow>
               if length jsonBytes > 5 then
                 (case UnmarshalJSON cd jsonBytes of
                    Inl err \<Rightarrow>
                      (Inl (Error (Wrapf err ''unable to unmarshal json created from yaml'')), w)
                  | Inr data \<Rightarrow>
                      if IsList data then
                        EachListItem data (\<lambda>dataL. executeManifest oClient dataL namespace delete) w
                      else executeManifest oClient data namespace delete w)
               else (Inr (), w)))"

text \<open>
  The test that \<open>applyConfigChange\<close> makes on the message of a failed document, and
  its loop over the segments.
\<close>

definition notFoundClass :: "string \<Rightarrow> bool" where
  "notFoundClass err =
     (let errStr = TrimSpace err
      in HasSuffix errStr ''not found''
         \<or> HasSuffix errStr ''the server could not find the requested resource'')"

fun applyEach ::
  "codec \<Rightarrow> 's OctarineClient \<Rightarrow> string \<Rightarrow> bool \<Rightarrow> string list \<Rightarrow> 's world
     \<Rightarrow> (failure + unit) \<times> 's world" where
  "applyEach cd oClient namespace delete [] w = (Inr (), w)"
| "applyEach cd oClient namespace delete (yml # yamls) w =
     (if TrimSpace yml \<noteq> [] then
        (case applyManifestPayload cd oClient namespace yml delete w of
           (Inr _, w1) \<Rightarrow> applyEach cd oClient namespace delete yamls w1
         | (Inl (Panic p), w1) \<Rightarrow> (Inl (Panic p), w1)
         | (Inl (Error err), w1) \<Rightarrow>
             if delete \<and> notFoundClass err
             then applyEach cd oClient namespace delete yamls w1
             else (Inl (Error err), w1))
      else applyEach cd oClient namespace delete yamls w)"

definition applyConfigChange ::
  "codec \<Rightarrow> 's OctarineClient \<Rightarrow> string \<Rightarrow> string \<Rightarrow> bool \<Rightarrow> 's world
     \<Rightarrow> (failure + unit) \<times> 's world" where
  "applyConfigChange cd oClient yamlFileContents namespace delete w =
     applyEach cd oClient namespace delete (Split yamlFileContents ''---'') w"



section \<open>A scripted store and sample documents\<close>

text \<open>
  A store for concrete runs: its state is the list of answers still to give, one per
  call, and a call made after the list is used up fails with \<open>not found\<close>.
\<close>

definition answer :: "(string + Unstructured) list \<Rightarrow> (string + Unstructured) \<times> (string + Unstructured) list" where
  "answer s = (case s of [] \<Rightarrow> (Inl ''not found'', []) | a # rest \<Rightarrow> (a, rest))"

definition scripted :: "(string + Unstructured) list dynamic_client" where
  "scripted =
     \<lparr>Create = (\<lambda>res ns data s. answer s),
      Get = (\<lambda>res ns name s. answer s),
      Update = (\<lambda>res ns data s. answer s),
      Delete = (\<lambda>res ns name opts s.
         case answer s of (Inl err, rest) \<Rightarrow> (Some err, rest) | (Inr _, rest) \<Rightarrow> (None, rest))\<rparr>"

definition scriptedClient :: "(string + Unstructured) list OctarineClient" where
  "scriptedClient = \<lparr>k8sDynamicClient = Some scripted\<rparr>"

definition script :: "(string + Unstructured) list \<Rightarrow> (string + Unstructured) list world" where
  "script answers = \<lparr>store = answers, calls = []\<rparr>"

definition webDeployment :: Unstructured where
  "webDeployment =
     \<lparr>Object =
        [(''apiVersion'', VString ''apps/v1''),
         (''kind'', VString ''Deployment''),
         (''metadata'', VMap [(''name'', VString ''web''), (''namespace'', VString ''demo'')]),
         (''spec'', VMap [(''replicas'', VInt 3)])]\<rparr>"

definition storedDeployment :: Unstructured where
  "storedDeployment =
     \<lparr>Object =
        [(''apiVersion'', VString ''apps/v1''),
         (''kind'', VString ''Deployment''),
         (''metadata'', VMap [(''name'', VString ''web''), (''namespace'', VString ''demo''),
                              (''resourceVersion'', VString ''41'')]),
         (''spec'', VMap [(''replicas'', VInt 3)])]\<rparr>"

definition defaultNamespace :: Unstructured where
  "defaultNamespace =
     \<lparr>Object =
        [(''apiVersion'', VString ''v1''),
         (''kind'', VString ''Namespace''),
         (''metadata'', VMap [(''name'', VString ''default'')])]\<rparr>"

definition logEntry :: Unstructured where
  "logEntry =
     \<lparr>Object =
        [(''apiVersion'', VString ''config.istio.io/v1alpha2''),
         (''kind'', VString ''LogEntry''),
         (''metadata'', VMap [(''name'', VString ''accesslog'')])]\<rparr>"

definition kubernetesHandler :: Unstructured where
  "kubernetesHandler =
     \<lparr>Object =
        [(''apiVersion'', VString ''config/istio/v1''),
         (''kind'', VString ''Kubernetes''),
         (''metadata'', VMap [(''name'', VString ''attributes'')])]\<rparr>"

text \<open>
  A codec for concrete runs, by table: the text \<open>web\<close> stands for the deployment,
  \<open>ns\<close> for the default namespace, a lone \<open>#\<close> is a comment and converts to
  \<open>null\<close>; any other text is rejected.
\<close>

definition tableCodec :: codec where
  "tableCodec =
     \<lparr>YAMLToJSON = (\<lambda>y.
        if TrimSpace y = ''web'' then Inr ''{deployment web}''
        else if TrimSpace y = ''ns'' then Inr ''{namespace default}''
        else if TrimSpace y = ''#'' then Inr ''null''
        else Inl ''yaml: did not find expected node content''),
      UnmarshalJSON = (\<lambda>j.
        if j = ''{deployment web}'' then Inr webDeployment
        else if j = ''{namespace default}'' then Inr defaultNamespace
        else Inl ''invalid character'')\<rparr>"

section \<open>Shapes of the call sequences\<close>

text \<open>
  What each verb helper can add to the record of calls, with the result it returns
  then: one call that succeeds, a failed call and a second that succeeds, or two
  failed calls.
\<close>

definition createTrace ::
  "GroupVersionResource \<Rightarrow> Unstructured \<Rightarrow> failure + unit \<Rightarrow> call list \<Rightarrow> bool" where
  "createTrace res data r T \<longleftrightarrow>
     (\<exists>a. r = Inr () \<and> T = [CreateCall res (Some (GetNamespace data)) data (Inr a)])
   \<or> (\<exists>e a. r = Inr () \<and> T = [CreateCall res (Some (GetNamespace data)) data (Inl e),
                                 CreateCall res None data (Inr a)])
   \<or> (\<exists>e e2 msg. r = Inl (Error msg) \<and> T = [CreateCall res (Some (GetNamespace data)) data (Inl e),
                                 CreateCall res None data (Inl e2)])"

definition getTrace ::
  "GroupVersionResource \<Rightarrow> Unstructured \<Rightarrow> failure + Unstructured \<Rightarrow> call list \<Rightarrow> bool" where
  "getTrace res data r T \<longleftrightarrow>
     (\<exists>d. r = Inr d \<and> T = [GetCall res (Some (GetNamespace data)) (GetName data) (Inr d)])
   \<or> (\<exists>e d. r = Inr d \<and> T = [GetCall res (Some (GetNamespace data)) (GetName data) (Inl e),
                                 GetCall res None (GetName data) (Inr d)])
   \<or> (\<exists>e e2 msg. r = Inl (Error msg) \<and> T = [GetCall res (Some (GetNamespace data)) (GetName data) (Inl e),
                                 GetCall res None (GetName data) (Inl e2)])"

definition updateTrace ::
  "GroupVersionResource \<Rightarrow> Unstructured \<Rightarrow> failure + unit \<Rightarrow> call list \<Rightarrow> bool" where
  "updateTrace res data r T \<longleftrightarrow>
     (\<exists>a. r = Inr () \<and> T = [UpdateCall res (Some (GetNamespace data)) data (Inr a)])
   \<or> (\<exists>e a. r = Inr () \<and> T = [UpdateCall res (Some (GetNamespace data)) data (Inl e),
                                 UpdateCall res None data (Inr a)])
   \<or> (\<exists>e e2 msg. r = Inl (Error msg) \<and> T = [UpdateCall res (Some (GetNamespace data)) data (Inl e),
                                 UpdateCall res None data (Inl e2)])"

definition deleteTrace ::
  "GroupVersionResource \<Rightarrow> Unstructured \<Rightarrow> failure + unit \<Rightarrow> call list \<Rightarrow> bool" where
  "deleteTrace res data r T \<longleftrightarrow>
     (r = Inr () \<and> T = [DeleteCall res (Some (GetNamespace data)) (GetName data)
                           \<lparr>PropagationPolicy = Some DeletePropagationBackground\<rparr> None])
   \<or> (\<exists>e. r = Inr () \<and> T = [DeleteCall res (Some (GetNamespace data)) (GetName data)
                           \<lparr>PropagationPolicy = Some DeletePropagationBackground\<rparr> (Some e),
                         DeleteCall res None (GetName data) \<lparr>PropagationPolicy = None\<rparr> None])
   \<or> (\<exists>e e2 msg. r = Inl (Error msg) \<and> T = [DeleteCall res (Some (GetNamespace data)) (GetName data)
                           \<lparr>PropagationPolicy = Some DeletePropagationBackground\<rparr> (Some e),
                         DeleteCall res None (GetName data) \<lparr>PropagationPolicy = None\<rparr> (Some e2)])"

section \<open>The calls of each verb helper\<close>

declare Split.simps [simp del]

lemma createResource_trace:
  assumes "k8sDynamicClient oClient = Some c" and "createResource oClient res data w = (r, w')"
  shows "\<exists>T. calls w' = calls w @ T \<and> createTrace res data r T"
  using assms unfolding createResource_def callCreate_def createTrace_def
  by (auto split: prod.splits sum.splits)

lemma getResource_trace:
  assumes "k8sDynamicClient oClient = Some c" and "getResource oClient res data w = (r, w')"
  shows "\<exists>T. calls w' = calls w @ T \<and> getTrace res data r T"
  using assms unfolding getResource_def callGet_def getTrace_def
  by (auto split: prod.splits sum.splits)

lemma updateResource_trace:
  assumes "k8sDynamicClient oClient = Some c" and "updateResource oClient res data w = (r, w')"
  shows "\<exists>T. calls w' = calls w @ T \<and> updateTrace res data r T"
  using assms unfolding updateResource_def callUpdate_def updateTrace_def
  by (auto split: prod.splits sum.splits)

lemma deleteCalls_trace:
  assumes "deleteCalls c res data w = (r, w')"
  shows "\<exists>T. calls w' = calls w @ T \<and> deleteTrace res data r T"
  using assms unfolding deleteCalls_def callDelete_def deleteTrace_def
  by (auto split: prod.splits option.splits)

lemmas engine_defs =
  executeManifest_def createResource_def getResource_def updateResource_def deleteResource_def
  deleteCalls_def zeroReplicas_def callCreate_def callGet_def callUpdate_def callDelete_def
  withNamespace_def SetNamespace_def computedResource_def groupVersionOf_def pluralOf_def
  ToLower_def lowerChar_def GetAPIVersion_def GetKind_def GetName_def GetNamespace_def
  getNestedString_def Split.simps Wrapf_def Let_def

lemmas sample_defs =
  scriptedClient_def scripted_def answer_def script_def webDeployment_def storedDeployment_def
  defaultNamespace_def logEntry_def kubernetesHandler_def

section \<open>Applying and deleting one document\<close>

lemma apply_grammar:
  assumes cl: "k8sDynamicClient oClient = Some c"
  shows "\<exists>rc Tc rg Tg Tu.
     calls (snd (executeManifest oClient data0 namespace False w)) = calls w @ Tc @ Tg @ Tu
     \<and> createTrace (computedResource (withNamespace data0 namespace)) (withNamespace data0 namespace) rc Tc
     \<and> (case rc of
          Inr _ \<Rightarrow> Tg = [] \<and> Tu = [] \<and> fst (executeManifest oClient data0 namespace False w) = Inr ()
        | Inl _ \<Rightarrow>
            getTrace (computedResource (withNamespace data0 namespace)) (withNamespace data0 namespace) rg Tg
            \<and> (case rg of
                 Inl f \<Rightarrow> Tu = [] \<and> fst (executeManifest oClient data0 namespace False w) = Inl f
               | Inr d \<Rightarrow> updateTrace (computedResource (withNamespace data0 namespace)) d
                           (fst (executeManifest oClient data0 namespace False w)) Tu))"
proof -
  let ?data = "withNamespace data0 namespace"
  let ?res = "computedResource ?data"
  let ?ex = "executeManifest oClient data0 namespace False w"
  obtain rc w1 where cr: "createResource oClient ?res ?data w = (rc, w1)"
    by (cases "createResource oClient ?res ?data w")
  from createResource_trace [OF cl cr] obtain Tc
    where Tc: "calls w1 = calls w @ Tc" and sc: "createTrace ?res ?data rc Tc" by blast
  show ?thesis
  proof (cases rc)
    case (Inr u)
    with cr Tc have "calls (snd ?ex) = calls w @ Tc @ [] @ []" and "fst ?ex = Inr ()"
      by (simp_all add: executeManifest_def Let_def)
    with sc Inr show ?thesis by (intro exI [of _ rc] exI [of _ Tc] exI [of _ "[]"]) simp
  next
    case (Inl f)
    with sc obtain msg where f: "f = Error msg" by (auto simp: createTrace_def)
    obtain rg w2 where gr: "getResource oClient ?res ?data w1 = (rg, w2)"
      by (cases "getResource oClient ?res ?data w1")
    from getResource_trace [OF cl gr] obtain Tg
      where Tg: "calls w2 = calls w1 @ Tg" and sg: "getTrace ?res ?data rg Tg" by blast
    show ?thesis
    proof (cases rg)
      case (Inl g)
      with cr gr Tc Tg \<open>rc = Inl f\<close> f
      have "calls (snd ?ex) = calls w @ Tc @ Tg @ []" and "fst ?ex = Inl g"
        by (simp_all add: executeManifest_def Let_def)
      with sc sg Inl \<open>rc = Inl f\<close> show ?thesis
        by (intro exI [of _ rc] exI [of _ Tc] exI [of _ rg] exI [of _ Tg] exI [of _ "[]"]) simp
    next
      case (Inr d)
      obtain ru w3 where ur: "updateResource oClient ?res d w2 = (ru, w3)"
        by (cases "updateResource oClient ?res d w2")
      from updateResource_trace [OF cl ur] obtain Tu
        where Tu: "calls w3 = calls w2 @ Tu" and su: "updateTrace ?res d ru Tu" by blast
      from cr gr ur Tc Tg Tu \<open>rc = Inl f\<close> f Inr
      have "calls (snd ?ex) = calls w @ Tc @ Tg @ Tu" and "fst ?ex = ru"
        by (simp_all add: executeManifest_def Let_def)
      with sc sg su Inr \<open>rc = Inl f\<close> show ?thesis
        by (intro exI [of _ rc] exI [of _ Tc] exI [of _ rg] exI [of _ Tg] exI [of _ Tu]) simp
    qed
  qed
qed

lemma delete_deployment_grammar:
  assumes cl: "k8sDynamicClient oClient = Some c" and dep: "Resource res = ''deployments''"
  shows "\<exists>rg Tg ru Tu Td.
     calls (snd (deleteResource oClient res data w)) = calls w @ Tg @ Tu @ Td
     \<and> getTrace res data rg Tg
     \<and> (case rg of
          Inl f \<Rightarrow> Tu = [] \<and> Td = [] \<and> fst (deleteResource oClient res data w) = Inl f
        | Inr d1 \<Rightarrow>
            (case zeroReplicas d1 of
               Inl p \<Rightarrow> Tu = [] \<and> Td = [] \<and> fst (deleteResource oClient res data w) = Inl (Panic p)
             | Inr d \<Rightarrow>
                 updateTrace res d ru Tu
                 \<and> (case ru of
                      Inl f \<Rightarrow> Td = [] \<and> fst (deleteResource oClient res data w) = Inl f
                    | Inr _ \<Rightarrow> deleteTrace res data (fst (deleteResource oClient res data w)) Td)))"
proof -
  let ?del = "deleteResource oClient res data w"
  obtain rg w1 where gr: "getResource oClient res data w = (rg, w1)"
    by (cases "getResource oClient res data w")
  from getResource_trace [OF cl gr] obtain Tg
    where Tg: "calls w1 = calls w @ Tg" and sg: "getTrace res data rg Tg" by blast
  show ?thesis
  proof (cases rg)
    case (Inl f)
    with cl dep gr Tg have "calls (snd ?del) = calls w @ Tg @ [] @ []" and "fst ?del = Inl f"
      by (simp_all add: deleteResource_def)
    with sg Inl show ?thesis
      by (intro exI [of _ rg] exI [of _ Tg] exI [of _ "[]"]) simp
  next
    case (Inr d1)
    show ?thesis
    proof (cases "zeroReplicas d1")
      case (Inl p)
      with cl dep gr Tg Inr
      have "calls (snd ?del) = calls w @ Tg @ [] @ []" and "fst ?del = Inl (Panic p)"
        by (simp_all add: deleteResource_def)
      with sg Inr Inl show ?thesis
        by (intro exI [of _ rg] exI [of _ Tg] exI [of _ "[]"]) simp
    next
      case zr: (Inr d)
      obtain ru w2 where ur: "updateResource oClient res d w1 = (ru, w2)"
        by (cases "updateResource oClient res d w1")
      from updateResource_trace [OF cl ur] obtain Tu
        where Tu: "calls w2 = calls w1 @ Tu" and su: "updateTrace res d ru Tu" by blast
      show ?thesis
      proof (cases ru)
        case (Inl f)
        with cl dep gr ur Tg Tu Inr zr
        have "calls (snd ?del) = calls w @ Tg @ Tu @ []" and "fst ?del = Inl f"
          by (simp_all add: deleteResource_def)
        with sg su Inr zr Inl show ?thesis
          by (intro exI [of _ rg] exI [of _ Tg] exI [of _ ru] exI [of _ Tu] exI [of _ "[]"]) simp
      next
        case ok: (Inr u)
        obtain rd w3 where dr: "deleteCalls c res data w2 = (rd, w3)"
          by (cases "deleteCalls c res data w2")
        from deleteCalls_trace [OF dr] obtain Td
          where Td: "calls w3 = calls w2 @ Td" and sd: "deleteTrace res data rd Td" by blast
        from cl dep gr ur dr Tg Tu Td Inr zr ok
        have "calls (snd ?del) = calls w @ Tg @ Tu @ Td" and "fst ?del = rd"
          by (simp_all add: deleteResource_def)
        with sg su sd Inr zr ok show ?thesis
          by (intro exI [of _ rg] exI [of _ Tg] exI [of _ ru] exI [of _ Tu] exI [of _ Td]) simp
      qed
    qed
  qed
qed








text \<open>
  Claim C3.  With a client in place, deleting the object named \<open>default\<close> of the
  resource \<open>namespaces\<close> returns success and leaves the world as it was: the store
  is not called and its state plays no part.
\<close>

theorem delete_default_namespace_noop:
  assumes "k8sDynamicClient oClient = Some c"
    and "Resource res = ''namespaces''" and "GetName data = ''default''"
  shows "deleteResource oClient res data w = (Inr (), w)"
  using assms by (simp add: deleteResource_def)

theorem delete_default_namespace_noop_witness:
  "k8sDynamicClient scriptedClient = Some scripted
   \<and> Resource \<lparr>Group = [], Version = ''v1'', Resource = ''namespaces''\<rparr> = ''namespaces''
   \<and> GetName defaultNamespace = ''default''
   \<and> deleteResource scriptedClient \<lparr>Group = [], Version = ''v1'', Resource = ''namespaces''\<rparr>
        defaultNamespace (script [Inl ''forbidden''])
      = (Inr (), script [Inl ''forbidden''])
   \<and> executeManifest scriptedClient defaultNamespace [] True (script [Inl ''forbidden''])
      = (Inr (), \<lparr>store = [Inl ''forbidden''], calls = []\<rparr>)"
proof -
  have h: "k8sDynamicClient scriptedClient = Some scripted"
    by (simp add: scriptedClient_def)
  have r: "Resource \<lparr>Group = [], Version = ''v1'', Resource = ''namespaces''\<rparr> = ''namespaces''"
    by simp
  have n: "GetName defaultNamespace = ''default''"
    by (simp add: GetName_def getNestedString_def defaultNamespace_def)
  have run: "executeManifest scriptedClient defaultNamespace [] True (script [Inl ''forbidden''])
      = (Inr (), \<lparr>store = [Inl ''forbidden''], calls = []\<rparr>)"
    by (simp add: engine_defs sample_defs)
  from delete_default_namespace_noop [OF h r n, of "script [Inl ''forbidden'']"] h r n run
  show ?thesis by simp
qed

text \<open>
  Claim C10.  In the delete of a \<open>deployments\<close> resource, once the get has returned
  an object, an object with no \<open>spec\<close> entry, or with one that is not a map, makes
  the operation end in a panic of the type assertion, not in a returned error; the
  calls made are the gets alone.
\<close>

theorem delete_deployment_spec_assertion_panics:
  assumes cl: "k8sDynamicClient oClient = Some c" and dep: "Resource res = ''deployments''"
    and gr: "getResource oClient res data w = (Inr data1, w1)"
    and nospec: "\<not> (\<exists>m. map_of (Object data1) ''spec'' = Some (VMap m))"
  shows "deleteResource oClient res data w = (Inl (Panic InterfaceConversion), w1)
     \<and> (\<exists>T. calls w1 = calls w @ T \<and> (\<forall>k\<in>set T. phase k = 1))"
proof -
  from nospec have z: "zeroReplicas data1 = Inl InterfaceConversion"
    by (auto simp: zeroReplicas_def split: option.splits val.splits)
  from getResource_trace [OF cl gr] obtain T where "calls w1 = calls w @ T" "getTrace res data (Inr data1) T"
    by blast
  then have "\<exists>T. calls w1 = calls w @ T \<and> (\<forall>k\<in>set T. phase k = 1)"
    by (auto simp: getTrace_def)
  with cl dep gr z show ?thesis by (simp add: deleteResource_def)
qed

theorem delete_deployment_spec_assertion_panics_witness:
  "k8sDynamicClient scriptedClient = Some scripted
   \<and> Resource \<lparr>Group = ''apps'', Version = ''v1'', Resource = ''deployments''\<rparr> = ''deployments''
   \<and> getResource scriptedClient \<lparr>Group = ''apps'', Version = ''v1'', Resource = ''deployments''\<rparr>
        webDeployment (script [Inr defaultNamespace, Inr storedDeployment])
      = (Inr defaultNamespace,
         \<lparr>store = [Inr storedDeployment],
          calls = [GetCall \<lparr>Group = ''apps'', Version = ''v1'', Resource = ''deployments''\<rparr>
                     (Some ''demo'') ''web'' (Inr defaultNamespace)]\<rparr>)
   \<and> map_of (Object defaultNamespace) ''spec'' = None
   \<and> deleteResource scriptedClient \<lparr>Group = ''apps'', Version = ''v1'', Resource = ''deployments''\<rparr>
        webDeployment (script [Inr defaultNamespace, Inr storedDeployment])
      = (Inl (Panic InterfaceConversion),
         \<lparr>store = [Inr storedDeployment],
          calls = [GetCall \<lparr>Group = ''apps'', Version = ''v1'', Resource = ''deployments''\<rparr>
                     (Some ''demo'') ''web'' (Inr defaultNamespace)]\<rparr>)"
proof -
  have h: "k8sDynamicClient scriptedClient = Some scripted"
    by (simp add: scriptedClient_def)
  have d: "Resource \<lparr>Group = ''apps'', Version = ''v1'', Resource = ''deployments''\<rparr> = ''deployments''"
    by simp
  have g: "getResource scriptedClient \<lparr>Group = ''apps'', Version = ''v1'', Resource = ''deployments''\<rparr>
        webDeployment (script [Inr defaultNamespace, Inr storedDeployment])
      = (Inr defaultNamespace,
         \<lparr>store = [Inr storedDeployment],
          calls = [GetCall \<lparr>Group = ''apps'', Version = ''v1'', Resource = ''deployments''\<rparr>
                     (Some ''demo'') ''web'' (Inr defaultNamespace)]\<rparr>)"
    by (simp add: engine_defs sample_defs)
  have n: "map_of (Object defaultNamespace) ''spec'' = None"
    by (simp add: defaultNamespace_def)
  then have n': "\<not> (\<exists>m. map_of (Object defaultNamespace) ''spec'' = Some (VMap m))"
    by simp
  from delete_deployment_spec_assertion_panics [OF h d g n'] h d g n
  show ?thesis by simp
qed


section \<open>Resource coordinates\<close>

lemma Index_char_None: "c \<notin> set s \<Longrightarrow> Index s [c] = None"
  by (induction s) auto

lemma Index_char_Some: "c \<notin> set g \<Longrightarrow> Index (g @ c # r) [c] = Some (length g)"
  by (induction g) auto

lemma Split_char_none: "c \<notin> set s \<Longrightarrow> Split s [c] = [s]"
  by (subst Split.simps) (simp add: Index_char_None)

lemma Split_char_cons: "c \<notin> set g \<Longrightarrow> Split (g @ c # r) [c] = g # Split r [c]"
  by (subst Split.simps) (simp add: Index_char_Some)

lemma length_Split_char: "length (Split s [c]) = Suc (count_list s c)"
proof (induction s rule: length_induct)
  case (1 s)
  show ?case
  proof (cases "c \<in> set s")
    case False
    then show ?thesis by (simp add: Split_char_none)
  next
    case True
    then obtain g r where s: "s = g @ c # r" and g: "c \<notin> set g"
      by (auto dest: split_list_first)
    have "length r < length s" using s by simp
    with 1 have "length (Split r [c]) = Suc (count_list r c)" by blast
    with s g show ?thesis by (simp add: Split_char_cons)
  qed
qed

lemma groupVersionOf_one:
  assumes "count_list a (CHR ''/'') = 1"
  shows "a = fst (groupVersionOf a) @ ''/'' @ snd (groupVersionOf a)
         \<and> CHR ''/'' \<notin> set (fst (groupVersionOf a)) \<and> CHR ''/'' \<notin> set (snd (groupVersionOf a))"
proof -
  from assms have "CHR ''/'' \<in> set a" by (metis count_list_0_iff zero_neq_one)
  then obtain g r where s: "a = g @ CHR ''/'' # r" and g: "CHR ''/'' \<notin> set g"
    by (auto dest: split_list_first)
  with assms have r: "CHR ''/'' \<notin> set r" by (simp add: count_list_0_iff)
  from g r have "Split a ''/'' = [g, r]"
    unfolding s by (simp add: Split_char_cons Split_char_none)
  then have "groupVersionOf a = (g, r)" by (simp add: groupVersionOf_def)
  with s g r show ?thesis by simp
qed

lemma groupVersionOf_none:
  assumes "CHR ''/'' \<notin> set a"
  shows "groupVersionOf a = ([], a)"
  using assms by (simp add: groupVersionOf_def Split_char_none)

lemma groupVersionOf_many:
  assumes "2 \<le> count_list a (CHR ''/'')"
  shows "groupVersionOf a = ([], [])"
  using assms length_Split_char [of a "CHR ''/''"] by (simp add: groupVersionOf_def)

lemma deleteResource_calls_resource:
  assumes cl: "k8sDynamicClient oClient = Some c"
  shows "\<exists>T. calls (snd (deleteResource oClient res data w)) = calls w @ T
     \<and> (\<forall>k\<in>set T. resourceOf k = res)
     \<and> (T = [] \<longrightarrow> Resource res = ''namespaces'' \<and> GetName data = ''default'')"
proof (cases "Resource res = ''namespaces'' \<and> GetName data = ''default''")
  case True
  with cl show ?thesis by (simp add: deleteResource_def)
next
  case False
  show ?thesis
  proof (cases "Resource res = ''deployments''")
    case True
    from delete_deployment_grammar [OF cl True, of data w] obtain rg Tg ru Tu Td where
      g: "calls (snd (deleteResource oClient res data w)) = calls w @ Tg @ Tu @ Td"
       "getTrace res data rg Tg"
       "(case rg of
            Inl f \<Rightarrow> Tu = [] \<and> Td = [] \<and> fst (deleteResource oClient res data w) = Inl f
          | Inr d1 \<Rightarrow>
              (case zeroReplicas d1 of
                 Inl p \<Rightarrow> Tu = [] \<and> Td = [] \<and> fst (deleteResource oClient res data w) = Inl (Panic p)
               | Inr d \<Rightarrow>
                   updateTrace res d ru Tu
                   \<and> (case ru of
                        Inl f \<Rightarrow> Td = [] \<and> fst (deleteResource oClient res data w) = Inl f
                      | Inr _ \<Rightarrow> deleteTrace res data (fst (deleteResource oClient res data w)) Td)))"
      by blast
    show ?thesis
      apply (rule exI [of _ "Tg @ Tu @ Td"])
      using g
      apply (auto simp: getTrace_def updateTrace_def deleteTrace_def split: sum.splits)
      done
  next
    case nd: False
    obtain rd w3 where dr: "deleteCalls c res data w = (rd, w3)"
      by (cases "deleteCalls c res data w")
    from deleteCalls_trace [OF dr] obtain Td
      where Td: "calls w3 = calls w @ Td" and sd: "deleteTrace res data rd Td" by blast
    from cl False nd dr have "snd (deleteResource oClient res data w) = w3"
      by (auto simp: deleteResource_def)
    with Td sd show ?thesis
      by (intro exI [of _ Td]) (auto simp: deleteTrace_def)
  qed
qed

lemma executeManifest_calls_resource:
  assumes cl: "k8sDynamicClient oClient = Some c"
  shows "\<exists>T. calls (snd (executeManifest oClient data0 namespace delete w)) = calls w @ T
     \<and> (\<forall>k\<in>set T. resourceOf k = computedResource (withNamespace data0 namespace))
     \<and> (T = [] \<longrightarrow> delete)"
proof (cases delete)
  case True
  with deleteResource_calls_resource [OF cl, of "computedResource (withNamespace data0 namespace)"
      "withNamespace data0 namespace" w]
  show ?thesis by (auto simp: executeManifest_def Let_def)
next
  case False
  from apply_grammar [OF cl, of data0 namespace w] obtain rc Tc rg Tg Tu where
    g: "calls (snd (executeManifest oClient data0 namespace False w)) = calls w @ Tc @ Tg @ Tu"
     "createTrace (computedResource (withNamespace data0 namespace)) (withNamespace data0 namespace) rc Tc"
     "(case rc of
          Inr _ \<Rightarrow> Tg = [] \<and> Tu = [] \<and> fst (executeManifest oClient data0 namespace False w) = Inr ()
        | Inl _ \<Rightarrow>
            getTrace (computedResource (withNamespace data0 namespace)) (withNamespace data0 namespace) rg Tg
            \<and> (case rg of
                 Inl f \<Rightarrow> Tu = [] \<and> fst (executeManifest oClient data0 namespace False w) = Inl f
               | Inr d \<Rightarrow> updateTrace (computedResource (withNamespace data0 namespace)) d
                           (fst (executeManifest oClient data0 namespace False w)) Tu))"
    by blast
  show ?thesis
    apply (rule exI [of _ "Tc @ Tg @ Tu"])
    using g False
    apply (auto simp: createTrace_def getTrace_def updateTrace_def split: sum.splits)
    done
qed


lemma GetAPIVersion_withNamespace: "GetAPIVersion (withNamespace data ns) = GetAPIVersion data"
  by (simp add: withNamespace_def SetNamespace_def GetAPIVersion_def getNestedString_def update_conv'
      split: option.splits val.splits)



text \<open>
  Claim C6.  With exactly one \<open>/\<close> in the \<open>apiVersion\<close>, the group is the part
  before it and the version the part after it; with none the group is empty and the
  version is the whole string; with two or more both are empty.  No case is an
  error: the document goes on to the store under the coordinate computed, and an apply
  makes at least one call.
\<close>

theorem group_version_from_apiVersion:
  assumes cl: "k8sDynamicClient oClient = Some c"
  shows "let a = GetAPIVersion data0; res = computedResource (withNamespace data0 namespace) in
     (count_list a (CHR ''/'') = 1 \<longrightarrow>
        a = Group res @ ''/'' @ Version res
        \<and> CHR ''/'' \<notin> set (Group res) \<and> CHR ''/'' \<notin> set (Version res))
   \<and> (count_list a (CHR ''/'') = 0 \<longrightarrow> Group res = [] \<and> Version res = a)
   \<and> (2 \<le> count_list a (CHR ''/'') \<longrightarrow> Group res = [] \<and> Version res = [])
   \<and> (\<exists>T. calls (snd (executeManifest oClient data0 namespace delete w)) = calls w @ T
          \<and> (\<forall>k\<in>set T. resourceOf k = res) \<and> (T = [] \<longrightarrow> delete))"
proof -
  let ?a = "GetAPIVersion data0"
  have one: "count_list ?a (CHR ''/'') = 1 \<longrightarrow>
        ?a = fst (groupVersionOf ?a) @ ''/'' @ snd (groupVersionOf ?a)
        \<and> CHR ''/'' \<notin> set (fst (groupVersionOf ?a)) \<and> CHR ''/'' \<notin> set (snd (groupVersionOf ?a))"
    using groupVersionOf_one [of ?a] by blast
  have none: "count_list ?a (CHR ''/'') = 0 \<longrightarrow> groupVersionOf ?a = ([], ?a)"
    using groupVersionOf_none [of ?a] by (simp add: count_list_0_iff)
  have many: "2 \<le> count_list ?a (CHR ''/'') \<longrightarrow> groupVersionOf ?a = ([], [])"
    using groupVersionOf_many [of ?a] by blast
  from one none many executeManifest_calls_resource [OF cl, of data0 namespace delete w]
  show ?thesis
    by (simp add: Let_def computedResource_def GetAPIVersion_withNamespace)
qed

theorem group_version_from_apiVersion_witness:
  "k8sDynamicClient scriptedClient = Some scripted
   \<and> count_list (GetAPIVersion webDeployment) (CHR ''/'') = 1
   \<and> computedResource (withNamespace webDeployment [])
      = \<lparr>Group = ''apps'', Version = ''v1'', Resource = ''deployments''\<rparr>
   \<and> count_list (GetAPIVersion defaultNamespace) (CHR ''/'') = 0
   \<and> computedResource (withNamespace defaultNamespace [])
      = \<lparr>Group = [], Version = ''v1'', Resource = ''namespaces''\<rparr>
   \<and> count_list (GetAPIVersion kubernetesHandler) (CHR ''/'') = 2
   \<and> computedResource (withNamespace kubernetesHandler [])
      = \<lparr>Group = [], Version = [], Resource = ''kuberneteses''\<rparr>
   \<and> executeManifest scriptedClient kubernetesHandler [] False (script [Inr kubernetesHandler])
      = (Inr (),
         \<lparr>store = [],
          calls = [CreateCall \<lparr>Group = [], Version = [], Resource = ''kuberneteses''\<rparr>
                     (Some []) kubernetesHandler (Inr kubernetesHandler)]\<rparr>)"
proof -
  have h: "k8sDynamicClient scriptedClient = Some scripted"
    by (simp add: scriptedClient_def)
  have k: "count_list (GetAPIVersion webDeployment) (CHR ''/'') = 1"
    "count_list (GetAPIVersion defaultNamespace) (CHR ''/'') = 0"
    "count_list (GetAPIVersion kubernetesHandler) (CHR ''/'') = 2"
    by (simp_all add: engine_defs sample_defs)
  have r: "computedResource (withNamespace webDeployment [])
      = \<lparr>Group = ''apps'', Version = ''v1'', Resource = ''deployments''\<rparr>"
    "computedResource (withNamespace defaultNamespace [])
      = \<lparr>Group = [], Version = ''v1'', Resource = ''namespaces''\<rparr>"
    "computedResource (withNamespace kubernetesHandler [])
      = \<lparr>Group = [], Version = [], Resource = ''kuberneteses''\<rparr>"
    by (simp_all add: engine_defs sample_defs)
  have run: "executeManifest scriptedClient kubernetesHandler [] False (script [Inr kubernetesHandler])
      = (Inr (),
         \<lparr>store = [],
          calls = [CreateCall \<lparr>Group = [], Version = [], Resource = ''kuberneteses''\<rparr>
                     (Some []) kubernetesHandler (Inr kubernetesHandler)]\<rparr>)"
    by (simp add: engine_defs sample_defs)
  from group_version_from_apiVersion [OF h, of webDeployment "[]" False "script []"]
    group_version_from_apiVersion [OF h, of defaultNamespace "[]" False "script []"]
    group_version_from_apiVersion [OF h, of kubernetesHandler "[]" False "script [Inr kubernetesHandler]"]
    h k r run
  show ?thesis by (simp add: Let_def)
qed

section \<open>Payloads\<close>

lemmas payload_defs =
  applyManifestPayload_def tableCodec_def TrimSpace_def isSpace_def IsList_def EachListItem_def
  notFoundClass_def HasSuffix_def applyConfigChange_def

text \<open>
  Claim C9.  With a client in place, a text whose conversion yields at most 5 bytes
  (the JSON \<open>null\<close>) is skipped: the result is success and the world is as before,
  so the store is not called.
\<close>

theorem null_payload_skipped:
  assumes "k8sDynamicClient oClient = Some c"
    and "YAMLToJSON cd newBytes = Inr jsonBytes" and "length jsonBytes \<le> 5"
  shows "applyManifestPayload cd oClient namespace newBytes delete w = (Inr (), w)"
  using assms by (simp add: applyManifestPayload_def)

theorem null_payload_skipped_witness:
  "k8sDynamicClient scriptedClient = Some scripted
   \<and> YAMLToJSON tableCodec '' # '' = Inr ''null''
   \<and> length ''null'' \<le> 5
   \<and> applyManifestPayload tableCodec scriptedClient ''demo'' '' # '' False (script [Inl ''boom''])
      = (Inr (), \<lparr>store = [Inl ''boom''], calls = []\<rparr>)"
proof -
  have h: "k8sDynamicClient scriptedClient = Some scripted"
    by (simp add: scriptedClient_def)
  have y: "YAMLToJSON tableCodec '' # '' = Inr ''null''"
    by (simp add: payload_defs)
  have l: "length ''null'' \<le> 5" by simp
  from null_payload_skipped [OF h y l, of "''demo''" False "script [Inl ''boom'']"] h y
  show ?thesis by (simp add: script_def)
qed




section \<open>Splitting a payload\<close>

























end
